theory Spec2Isabelle
  imports Complex_Main
begin

section \<open>Field types of the schema\<close>

text \<open>
  The repository is a Django schema (\<^verbatim>\<open>SMA/core/models.py\<close>): model classes, their fields,
  their uniqueness declarations and four \<^verbatim>\<open>save\<close> overrides. (\<^verbatim>\<open>models.py\<close> at the top is
  an earlier, smaller draft of the same classes; it has the unique \<^verbatim>\<open>reference\<close> and
  the one-to-one \<^verbatim>\<open>Invoice.payment\<close>, but neither the slugs nor \<^verbatim>\<open>unique_together\<close>.
  The embedding follows the fuller file.) Field types are embedded as
  follows: a \<^verbatim>\<open>DateTimeField\<close> is a number of seconds, a \<^verbatim>\<open>DateField\<close> a number of days,
  a \<^verbatim>\<open>DecimalField\<close> with two decimal places a number of hundredths, a
  \<^verbatim>\<open>PositiveIntegerField\<close> a natural number, a \<^verbatim>\<open>CharField\<close>, \<^verbatim>\<open>TextField\<close>, \<^verbatim>\<open>SlugField\<close>,
  \<^verbatim>\<open>URLField\<close> or \<^verbatim>\<open>FileField\<close> a string, a nullable field an option, a foreign key the
  primary key of the row it points to.
\<close>

type_synonym datetime = int
type_synonym date = int
type_synonym decimal2 = int

text \<open>
  The automatic dates of the schema are \<^verbatim>\<open>datetime.date.today()\<close>, the calendar day in the
  time zone the process runs in; seconds and days are counted in that zone, and
  \<open>date_of\<close> is the day an instant falls on.
\<close>

definition date_of :: "datetime \<Rightarrow> date" where
  "date_of t = t div 86400"

datatype json =
    JNull
  | JBool bool
  | JNumber rat
  | JString string
  | JArray "json list"
  | JObject "(string \<times> json) list"

text \<open>
  A write the database refuses raises \<^verbatim>\<open>IntegrityError\<close>; the error carries the columns of
  the uniqueness constraint that was violated. The specification calls this failure
  \<^verbatim>\<open>DuplicateError\<close>, and \<^verbatim>\<open>DuplicateReference\<close> when the constraint is the one on
  \<^verbatim>\<open>PaymentTransaction.reference\<close>.
\<close>

datatype error =
    IntegrityError "string list"

section \<open>Abstract base models and the store\<close>

text \<open>
  Every model has the automatic primary key; it is \<open>None\<close> until the instance has been
  written. \<^verbatim>\<open>TimeStampedModel\<close> adds \<^verbatim>\<open>created_at\<close> (\<^verbatim>\<open>auto_now_add\<close>) and \<^verbatim>\<open>updated_at\<close>
  (\<^verbatim>\<open>auto_now\<close>); \<^verbatim>\<open>SoftDeleteModel\<close> adds the active flag. Every model that mixes in
  \<^verbatim>\<open>SoftDeleteModel\<close> also mixes in \<^verbatim>\<open>TimeStampedModel\<close>, so the two are one chain here.
\<close>

record Model =
  pk :: "nat option"

record TimeStampedModel = Model +
  created_at :: datetime
  updated_at :: datetime

record SoftDeleteModel = TimeStampedModel +
  is_active :: bool
  deleted_at :: "datetime option"

text \<open>
  A table is the list of its rows. A uniqueness constraint (\<^verbatim>\<open>unique=True\<close>,
  \<^verbatim>\<open>unique_together\<close>, \<^verbatim>\<open>OneToOneField\<close>) is its columns and the relation "these two rows
  agree on the columns"; a nullable column never agrees when it is null.

  \<^verbatim>\<open>Model.save\<close> writes an instance: an instance without a primary key, or with one no
  row has, is inserted (a missing key is assigned); otherwise the row with its key is
  replaced. The automatic timestamps are assigned first. The write is refused when
  another row agrees with the row to be written on a uniqueness constraint. The result is
  the instance as the call leaves it, and the new table or the error.
\<close>

type_synonym 'a unique = "string list \<times> ('a \<Rightarrow> 'a \<Rightarrow> bool)"

definition next_pk :: "'a Model_scheme list \<Rightarrow> nat" where
  "next_pk table = Suc (fold max (map (\<lambda>r. case pk r of None \<Rightarrow> 0 | Some i \<Rightarrow> i) table) 0)"

definition adding :: "'a Model_scheme list \<Rightarrow> 'a Model_scheme \<Rightarrow> bool" where
  "adding table self = (pk self = None \<or> pk self \<notin> set (map pk table))"

definition Model_save ::
  "'a TimeStampedModel_scheme unique list \<Rightarrow> datetime \<Rightarrow>
   'a TimeStampedModel_scheme list \<Rightarrow> 'a TimeStampedModel_scheme \<Rightarrow>
   'a TimeStampedModel_scheme \<times> (error + 'a TimeStampedModel_scheme list)" where
  "Model_save uniques now table self =
     (let add = adding table self;
          stamped = self\<lparr>created_at := (if add then now else created_at self),
                         updated_at := now\<rparr>;
          row = (if pk stamped = None then stamped\<lparr>pk := Some (next_pk table)\<rparr>
                 else stamped);
          others = filter (\<lambda>r. pk r \<noteq> pk row) table
      in case find (\<lambda>(cols, same). list_ex (\<lambda>r. same r row) others) uniques of
           Some (cols, same) \<Rightarrow> (stamped, Inl (IntegrityError cols))
         | None \<Rightarrow>
             if add then (row, Inr (table @ [row]))
             else (row, Inr (map (\<lambda>r. if pk r = pk row then row else r) table)))"

text \<open>
  A history of writes against one table; a refused write leaves the table as it was.
\<close>

fun saves ::
  "(datetime \<Rightarrow> 'a list \<Rightarrow> 'a \<Rightarrow> 'a \<times> (error + 'a list)) \<Rightarrow> 'a list \<Rightarrow>
   (datetime \<times> 'a) list \<Rightarrow> 'a list" where
  "saves save table [] = table"
| "saves save table ((now, x) # xs) =
     saves save (case snd (save now table x) of Inl e \<Rightarrow> table | Inr table' \<Rightarrow> table') xs"

text \<open>
  The state a table is kept in: primary keys are distinct, and no two rows agree on a
  uniqueness constraint.
\<close>

definition store_ok :: "'a Model_scheme unique list \<Rightarrow> 'a Model_scheme list \<Rightarrow> bool" where
  "store_ok uniques table =
     (distinct (map pk table) \<and>
      (\<forall>(cols, same) \<in> set uniques. \<forall>r \<in> set table. \<forall>s \<in> set table.
         pk r \<noteq> pk s \<longrightarrow> \<not> same r s))"

text \<open>Agreement on columns is symmetric; every constraint of the schema is of this kind.\<close>

definition uniques_symmetric :: "'a unique list \<Rightarrow> bool" where
  "uniques_symmetric uniques = (\<forall>(cols, same) \<in> set uniques. \<forall>r s. same r s \<longrightarrow> same s r)"

section \<open>Models with a slug\<close>

text \<open>
  \<^verbatim>\<open>Organization\<close>, \<^verbatim>\<open>ServicePlan\<close>, \<^verbatim>\<open>Event\<close> and \<^verbatim>\<open>Bundle\<close> declare
  \<^verbatim>\<open>slug = models.SlugField(unique=True, blank=True)\<close> and override \<^verbatim>\<open>save\<close>:
  \<^verbatim>\<open>
    def save(self, *args, **kwargs):
        if not self.slug:
            self.slug = slugify(self.name)
        super().save(*args, **kwargs)
  \<close>
  \<^verbatim>\<open>slugify\<close> is the framework's; it is a parameter of the model. Many-to-many fields live
  in tables of their own and are not fields of the row.
\<close>

record Organization = SoftDeleteModel +
  name :: string
  slug :: string
  description :: string
  contact_email :: string
  contact_phone :: string

record ServicePlan = SoftDeleteModel +
  provider :: nat
  name :: string
  slug :: string
  description :: string
  price :: decimal2
  currency :: string
  billing_interval :: string
  duration :: int
  trial_period_days :: nat
  featured :: bool
  category :: string
  max_seats :: "nat option"
  min_subscription_duration :: "nat option"
  paystack_plan_id :: string

record Event = SoftDeleteModel +
  provider :: nat
  name :: string
  slug :: string
  description :: string
  image :: "string option"
  location_name :: string
  address :: string
  city :: string
  state :: string
  country :: string
  latitude :: "int option"
  longitude :: "int option"
  is_online :: bool
  online_url :: string
  start_time :: datetime
  end_time :: datetime
  is_recurring :: bool
  recurrence_rule :: string
  capacity :: nat
  min_age :: "nat option"
  max_age :: "nat option"

record Bundle = SoftDeleteModel +
  name :: string
  slug :: string
  description :: string
  price :: decimal2
  currency :: string
  max_redemptions :: "nat option"
  times_redeemed :: nat

definition Organization_uniques :: "Organization unique list" where
  "Organization_uniques = [([''slug''], \<lambda>r s. Organization.slug r = Organization.slug s)]"

definition ServicePlan_uniques :: "ServicePlan unique list" where
  "ServicePlan_uniques =
     [([''slug''], \<lambda>r s. ServicePlan.slug r = ServicePlan.slug s),
      ([''paystack_plan_id''], \<lambda>r s. paystack_plan_id r = paystack_plan_id s)]"

definition Event_uniques :: "Event unique list" where
  "Event_uniques = [([''slug''], \<lambda>r s. Event.slug r = Event.slug s)]"

definition Bundle_uniques :: "Bundle unique list" where
  "Bundle_uniques = [([''slug''], \<lambda>r s. Bundle.slug r = Bundle.slug s)]"

definition Organization_save ::
  "(string \<Rightarrow> string) \<Rightarrow> datetime \<Rightarrow> Organization list \<Rightarrow> Organization \<Rightarrow>
   Organization \<times> (error + Organization list)" where
  "Organization_save slugify now table self =
     (let self = (if Organization.slug self = []
                  then self\<lparr>Organization.slug := slugify (Organization.name self)\<rparr>
                  else self)
      in Model_save Organization_uniques now table self)"

definition ServicePlan_save ::
  "(string \<Rightarrow> string) \<Rightarrow> datetime \<Rightarrow> ServicePlan list \<Rightarrow> ServicePlan \<Rightarrow>
   ServicePlan \<times> (error + ServicePlan list)" where
  "ServicePlan_save slugify now table self =
     (let self = (if ServicePlan.slug self = []
                  then self\<lparr>ServicePlan.slug := slugify (ServicePlan.name self)\<rparr>
                  else self)
      in Model_save ServicePlan_uniques now table self)"

definition Event_save ::
  "(string \<Rightarrow> string) \<Rightarrow> datetime \<Rightarrow> Event list \<Rightarrow> Event \<Rightarrow>
   Event \<times> (error + Event list)" where
  "Event_save slugify now table self =
     (let self = (if Event.slug self = []
                  then self\<lparr>Event.slug := slugify (Event.name self)\<rparr>
                  else self)
      in Model_save Event_uniques now table self)"

definition Bundle_save ::
  "(string \<Rightarrow> string) \<Rightarrow> datetime \<Rightarrow> Bundle list \<Rightarrow> Bundle \<Rightarrow>
   Bundle \<times> (error + Bundle list)" where
  "Bundle_save slugify now table self =
     (let self = (if Bundle.slug self = []
                  then self\<lparr>Bundle.slug := slugify (Bundle.name self)\<rparr>
                  else self)
      in Model_save Bundle_uniques now table self)"

section \<open>Subscriptions\<close>

text \<open>
  \<^verbatim>\<open>Subscription\<close> declares \<^verbatim>\<open>unique_together = ("subscriber", "plan")\<close> and a unique,
  nullable \<^verbatim>\<open>paystack_subscription_id\<close>. \<^verbatim>\<open>status\<close> defaults to \<^verbatim>\<open>Status.ACTIVE\<close>,
  \<^verbatim>\<open>start_date\<close> is a \<^verbatim>\<open>DateField(auto_now_add=True)\<close>: the day of the insert.
\<close>

datatype Subscription_Status = ACTIVE | PAUSED | CANCELED | EXPIRED

record Subscription = SoftDeleteModel +
  subscriber :: nat
  plan :: nat
  status :: Subscription_Status
  start_date :: date
  current_period_start :: "datetime option"
  current_period_end :: "datetime option"
  end_date :: "date option"
  auto_renew :: bool
  paystack_subscription_id :: "string option"
  quantity :: nat
  cancel_at_period_end :: bool
  canceled_at :: "datetime option"
  paused_at :: "datetime option"
  resumed_at :: "datetime option"
  latest_invoice_id :: "string option"
  metadata :: "json option"

definition Subscription_uniques :: "Subscription unique list" where
  "Subscription_uniques =
     [([''subscriber'', ''plan''], \<lambda>r s. subscriber r = subscriber s \<and> plan r = plan s),
      ([''paystack_subscription_id''],
       \<lambda>r s. paystack_subscription_id r \<noteq> None \<and>
              paystack_subscription_id r = paystack_subscription_id s)]"

definition Subscription_save ::
  "datetime \<Rightarrow> Subscription list \<Rightarrow> Subscription \<Rightarrow> Subscription \<times> (error + Subscription list)" where
  "Subscription_save now table self =
     Model_save Subscription_uniques now table
       (if adding table self then self\<lparr>start_date := date_of now\<rparr> else self)"

text \<open>
  \<^verbatim>\<open>Subscription.objects.create(subscriber=..., plan=...)\<close>: a new instance with every other
  field at its declared default, saved. The constructor leaves the automatic fields
  (\<^verbatim>\<open>created_at\<close>, \<^verbatim>\<open>updated_at\<close>, \<^verbatim>\<open>start_date\<close>) unset; the columns are not nullable, so
  the new instance holds 0 there, and it is the save that assigns them.
\<close>

definition Subscription_create ::
  "datetime \<Rightarrow> Subscription list \<Rightarrow> nat \<Rightarrow> nat \<Rightarrow> Subscription \<times> (error + Subscription list)" where
  "Subscription_create now table sub pl =
     Subscription_save now table
       \<lparr>pk = None, created_at = 0, updated_at = 0, is_active = True, deleted_at = None,
        subscriber = sub, plan = pl, status = Subscription_Status.ACTIVE,
        start_date = 0, current_period_start = None, current_period_end = None,
        end_date = None, auto_renew = True, paystack_subscription_id = None, quantity = 1,
        cancel_at_period_end = False, canceled_at = None, paused_at = None,
        resumed_at = None, latest_invoice_id = None, metadata = None\<rparr>"

definition period_ordered :: "Subscription \<Rightarrow> bool" where
  "period_ordered s =
     (case (current_period_start s, current_period_end s) of
        (Some a, Some b) \<Rightarrow> a \<le> b
      | _ \<Rightarrow> True)"

text \<open>
  Modelled from the spec: \<^verbatim>\<open>cancel(subscription, at_period_end)\<close>, which the repository
  does not implement. "If at_period_end, sets cancel_at_period_end=true and leaves status
  unchanged until period boundary; otherwise sets status=canceled, canceled_at=now
  immediately."
\<close>

definition cancel :: "datetime \<Rightarrow> bool \<Rightarrow> Subscription \<Rightarrow> Subscription" where
  "cancel now at_period_end s =
     (if at_period_end then s\<lparr>cancel_at_period_end := True\<rparr>
      else s\<lparr>status := Subscription_Status.CANCELED, canceled_at := Some now\<rparr>)"

section \<open>Payments and invoices\<close>

text \<open>
  \<^verbatim>\<open>PaymentTransaction.reference\<close> is \<^verbatim>\<open>unique=True\<close>. \<^verbatim>\<open>Invoice.invoice_number\<close> is
  \<^verbatim>\<open>unique=True\<close>, and \<^verbatim>\<open>Invoice.payment\<close> is a nullable \<^verbatim>\<open>OneToOneField\<close> to
  \<^verbatim>\<open>PaymentTransaction\<close>: a unique column in which nulls do not clash.
  \<^verbatim>\<open>Invoice.issue_date\<close> is a \<^verbatim>\<open>DateField(auto_now_add=True)\<close>.
\<close>

datatype PaymentTransaction_Types = CHARGE | TRANSFER | REFUND

record PaymentTransaction = TimeStampedModel +
  user :: nat
  event :: "nat option"
  subscription :: "nat option"
  ticket :: "nat option"
  amount :: decimal2
  currency :: string
  reference :: string
  status :: string
  transaction_type :: PaymentTransaction_Types
  metadata :: "json option"
  ip_address :: "string option"
  user_agent :: string
  raw_response :: "json option"

definition PaymentTransaction_uniques :: "PaymentTransaction unique list" where
  "PaymentTransaction_uniques = [([''reference''], \<lambda>r s. reference r = reference s)]"

definition PaymentTransaction_save ::
  "datetime \<Rightarrow> PaymentTransaction list \<Rightarrow> PaymentTransaction \<Rightarrow>
   PaymentTransaction \<times> (error + PaymentTransaction list)" where
  "PaymentTransaction_save now table self = Model_save PaymentTransaction_uniques now table self"

text \<open>
  \<^verbatim>\<open>PaymentTransaction.objects.create(...)\<close>: the given field values as a new instance
  (no primary key yet), saved. Recording a charge is this call with
  \<^verbatim>\<open>transaction_type=Types.CHARGE\<close>.
\<close>

definition PaymentTransaction_create ::
  "datetime \<Rightarrow> PaymentTransaction list \<Rightarrow> PaymentTransaction \<Rightarrow>
   PaymentTransaction \<times> (error + PaymentTransaction list)" where
  "PaymentTransaction_create now table new =
     PaymentTransaction_save now table (new\<lparr>pk := None\<rparr>)"

datatype Invoice_Status = DRAFT | SENT | PAID | OVERDUE | CANCELED

record Invoice = TimeStampedModel +
  invoice_number :: string
  user :: nat
  subscription :: "nat option"
  payment :: "nat option"
  issue_date :: date
  due_date :: "date option"
  status :: Invoice_Status
  subtotal :: decimal2
  tax_amount :: decimal2
  total_amount :: decimal2
  pdf :: string
  metadata :: "json option"

definition Invoice_uniques :: "Invoice unique list" where
  "Invoice_uniques =
     [([''invoice_number''], \<lambda>r s. invoice_number r = invoice_number s),
      ([''payment''], \<lambda>r s. payment r \<noteq> None \<and> payment r = payment s)]"

definition Invoice_save ::
  "datetime \<Rightarrow> Invoice list \<Rightarrow> Invoice \<Rightarrow> Invoice \<times> (error + Invoice list)" where
  "Invoice_save now table self =
     Model_save Invoice_uniques now table
       (if adding table self then self\<lparr>issue_date := date_of now\<rparr> else self)"

text \<open>
  \<^verbatim>\<open>Invoice.objects.create(...)\<close>: the given field values as a new instance, saved.
\<close>

definition Invoice_create ::
  "datetime \<Rightarrow> Invoice list \<Rightarrow> Invoice \<Rightarrow> Invoice \<times> (error + Invoice list)" where
  "Invoice_create now table new = Invoice_save now table (new\<lparr>pk := None\<rparr>)"

section \<open>Webhook log\<close>

text \<open>
  \<^verbatim>\<open>PaystackWebhook\<close> declares no uniqueness constraint; \<^verbatim>\<open>status\<close> defaults to
  \<^verbatim>\<open>Status.PENDING\<close>, \<^verbatim>\<open>processed\<close> to \<^verbatim>\<open>False\<close>, \<^verbatim>\<open>processed_at\<close> to null.
  \<^verbatim>\<open>payload = models.JSONField()\<close> is not nullable: a payload of \<^verbatim>\<open>None\<close> (\<open>JNull\<close>) is
  written as SQL null, which the column refuses.
\<close>

datatype PaystackWebhook_Status = PENDING | PROCESSED | FAILED

record PaystackWebhook = TimeStampedModel +
  event :: string
  payload :: json
  status :: PaystackWebhook_Status
  processed :: bool
  processed_at :: "datetime option"

definition PaystackWebhook_save ::
  "datetime \<Rightarrow> PaystackWebhook list \<Rightarrow> PaystackWebhook \<Rightarrow>
   PaystackWebhook \<times> (error + PaystackWebhook list)" where
  "PaystackWebhook_save now table self =
     (if payload self = JNull
      then (self\<lparr>created_at := (if adding table self then now else created_at self),
                 updated_at := now\<rparr>,
            Inl (IntegrityError [''payload'']))
      else Model_save [] now table self)"




section \<open>Payouts\<close>

text \<open>
  \<^verbatim>\<open>PlatformSettings.retry_attempts\<close> is a \<^verbatim>\<open>PositiveIntegerField(default=3)\<close>;
  \<^verbatim>\<open>Payout.status\<close> defaults to \<^verbatim>\<open>Status.PENDING\<close>, \<^verbatim>\<open>Payout.attempts\<close> to 0.
\<close>

record PlatformSettings = TimeStampedModel +
  default_tax_rate :: decimal2
  retry_attempts :: nat
  grace_period_days :: nat
  invoice_template :: string
  email_reminder_template :: string

datatype Payout_Status = PENDING | PAID | FAILED

record Payout = TimeStampedModel +
  provider :: nat
  amount :: decimal2
  currency :: string
  paystack_transfer_id :: string
  scheduled_for :: datetime
  processed_at :: "datetime option"
  status :: Payout_Status
  attempts :: nat
  last_error :: string
  processed_by :: "nat option"
  metadata :: "json option"

text \<open>
  Modelled from the spec: the dispatch of a payout, which the repository does not
  implement. "A Payout is created with status=pending and a scheduled_for timestamp. On
  dispatch, implementer increments attempts, and on failure records last_error and may
  leave status=pending for retry up to a platform-configured retry_attempts (from
  PlatformSettings) before marking status=failed terminally. Successful dispatch sets
  status=paid, processed_at=now, processed_by=<acting user/system>." A payout is
  dispatched while it is pending; one that is failed (terminally) or paid is not dispatched
  again, and \<open>dispatch\<close> then returns nothing. The scenario "a Payout with attempts=3 and
  platform retry_attempts=3, upon another failure, transitions to status=failed" fixes the
  bound: the failure is final when the attempts made before this one had already reached
  \<^verbatim>\<open>retry_attempts\<close>.
\<close>

datatype dispatch_result = Transferred | Failure string

definition dispatch ::
  "PlatformSettings \<Rightarrow> datetime \<Rightarrow> nat option \<Rightarrow> dispatch_result \<Rightarrow> Payout \<Rightarrow> Payout option" where
  "dispatch settings now actor result p =
     (if Payout.status p \<noteq> Payout_Status.PENDING then None
      else case result of
        Transferred \<Rightarrow>
          Some (p\<lparr>attempts := attempts p + 1, Payout.status := Payout_Status.PAID,
                  Payout.processed_at := Some now, processed_by := actor\<rparr>)
      | Failure err \<Rightarrow>
          Some (p\<lparr>attempts := attempts p + 1, last_error := err,
                  Payout.status := (if retry_attempts settings \<le> attempts p
                                    then Payout_Status.FAILED else Payout_Status.PENDING)\<rparr>))"

text \<open>
  A history of dispatch calls on one payout, each with its time, its actor and what the
  gateway answered; a call that dispatches nothing leaves the payout as it is.
\<close>

fun dispatches ::
  "PlatformSettings \<Rightarrow> Payout \<Rightarrow> (datetime \<times> nat option \<times> dispatch_result) list \<Rightarrow> Payout" where
  "dispatches settings p [] = p"
| "dispatches settings p ((now, actor, result) # calls) =
     dispatches settings
       (case dispatch settings now actor result p of None \<Rightarrow> p | Some p' \<Rightarrow> p') calls"

section \<open>Example rows\<close>

text \<open>Concrete rows and a concrete \<^verbatim>\<open>slugify\<close> on which the properties below are evaluated.\<close>

definition hyphenate :: "string \<Rightarrow> string" where
  "hyphenate s = map (\<lambda>c. if c = CHR '' '' then CHR ''-'' else c) s"

definition acme :: Organization where
  "acme = \<lparr>pk = None, created_at = 0, updated_at = 0, is_active = True, deleted_at = None,
     Organization.name = ''acme ltd'', Organization.slug = [],
     Organization.description = [], contact_email = [], contact_phone = []\<rparr>"

definition gold_plan :: ServicePlan where
  "gold_plan = \<lparr>pk = None, created_at = 0, updated_at = 0, is_active = True, deleted_at = None,
     ServicePlan.provider = 1, ServicePlan.name = ''gold plan'', ServicePlan.slug = ''gold'',
     ServicePlan.description = ''all inclusive'', ServicePlan.price = 500000,
     ServicePlan.currency = ''NGN'', billing_interval = ''monthly'', duration = 2592000,
     trial_period_days = 0, featured = False, category = [], max_seats = None,
     min_subscription_duration = None, paystack_plan_id = ''PLN_1''\<rparr>"

definition launch_party :: Event where
  "launch_party = \<lparr>pk = None, created_at = 0, updated_at = 0, is_active = True,
     deleted_at = None, Event.provider = 1, Event.name = ''launch party'', Event.slug = [],
     Event.description = ''opening night'', image = None, location_name = [], address = [],
     city = [], state = [], country = [], latitude = None, longitude = None,
     is_online = False, online_url = [], start_time = 1000, end_time = 2000,
     is_recurring = False, recurrence_rule = [], capacity = 50, min_age = None,
     max_age = None\<rparr>"

definition starter_bundle :: Bundle where
  "starter_bundle = \<lparr>pk = None, created_at = 0, updated_at = 0, is_active = True,
     deleted_at = None, Bundle.name = ''starter bundle'', Bundle.slug = [],
     Bundle.description = [], Bundle.price = 100000, Bundle.currency = ''NGN'',
     max_redemptions = None, Bundle.times_redeemed = 0\<rparr>"

definition first_charge :: PaymentTransaction where
  "first_charge = \<lparr>pk = None, created_at = 0, updated_at = 0, PaymentTransaction.user = 1,
     PaymentTransaction.event = None, PaymentTransaction.subscription = None, ticket = None,
     PaymentTransaction.amount = 250000, PaymentTransaction.currency = ''NGN'',
     reference = ''ref-001'', PaymentTransaction.status = ''success'',
     transaction_type = CHARGE, PaymentTransaction.metadata = None, ip_address = None,
     user_agent = [], raw_response = None\<rparr>"

definition subscription_42_7 :: Subscription where
  "subscription_42_7 =
     \<lparr>pk = Some 1, created_at = 90000, updated_at = 90000, is_active = True,
      deleted_at = None, subscriber = 42, plan = 7,
      Subscription.status = Subscription_Status.ACTIVE, start_date = 1,
      current_period_start = None, current_period_end = None, end_date = None,
      auto_renew = True, paystack_subscription_id = None, quantity = 1,
      cancel_at_period_end = False, canceled_at = None, paused_at = None,
      resumed_at = None, latest_invoice_id = None, Subscription.metadata = None\<rparr>"

definition invoice_0001 :: Invoice where
  "invoice_0001 = \<lparr>pk = Some 1, created_at = 86400, updated_at = 86400,
     invoice_number = ''INV-0001'', Invoice.user = 1, Invoice.subscription = None,
     payment = Some 5, issue_date = 1, due_date = None,
     Invoice.status = Invoice_Status.DRAFT, subtotal = 1000, tax_amount = 75,
     total_amount = 1075, pdf = [], Invoice.metadata = None\<rparr>"

definition backwards :: Subscription where
  "backwards =
     \<lparr>pk = None, created_at = 0, updated_at = 0, is_active = True,
      deleted_at = None, subscriber = 1, plan = 1,
      Subscription.status = Subscription_Status.ACTIVE, start_date = 0,
      current_period_start = Some 10, current_period_end = Some 5, end_date = None,
      auto_renew = True, paystack_subscription_id = None, quantity = 1,
      cancel_at_period_end = False, canceled_at = None, paused_at = None,
      resumed_at = None, latest_invoice_id = None, Subscription.metadata = None\<rparr>"


definition platform_defaults :: PlatformSettings where
  "platform_defaults = \<lparr>pk = Some 1, created_at = 0, updated_at = 0, default_tax_rate = 0,
     retry_attempts = 3, grace_period_days = 7, invoice_template = [],
     email_reminder_template = []\<rparr>"

definition payout_tried_thrice :: Payout where
  "payout_tried_thrice = \<lparr>pk = Some 1, created_at = 0, updated_at = 0, Payout.provider = 1,
     Payout.amount = 500000, Payout.currency = ''NGN'', paystack_transfer_id = ''TRF_1'',
     scheduled_for = 100, Payout.processed_at = None, Payout.status = Payout_Status.PENDING,
     attempts = 3, last_error = ''timeout'', processed_by = None, Payout.metadata = None\<rparr>"

section \<open>Properties of the store\<close>

lemma fold_max_ge: "x \<in> set xs \<Longrightarrow> x \<le> fold max xs (a::nat)"
proof (induction xs arbitrary: a)
  case Nil then show ?case by simp
next
  case (Cons y ys)
  have mono: "\<And>b. b \<le> fold max ys b"
    by (induct_tac ys rule: rev_induct) auto
  show ?case
  proof (cases "x = y")
    case True
    have "y \<le> max y a" by simp
    also have "\<dots> \<le> fold max ys (max y a)" by (rule mono)
    finally show ?thesis using True by simp
  next
    case False
    with Cons show ?thesis by simp
  qed
qed

lemma next_pk_fresh: "Some (next_pk table) \<notin> set (map pk table)"
proof
  assume "Some (next_pk table) \<in> set (map pk table)"
  then obtain r where r: "r \<in> set table" "pk r = Some (next_pk table)" by auto
  then have "next_pk table \<in> set (map (\<lambda>r. case pk r of None \<Rightarrow> 0 | Some i \<Rightarrow> i) table)"
    by (force simp: image_iff)
  then have "next_pk table \<le> fold max (map (\<lambda>r. case pk r of None \<Rightarrow> 0 | Some i \<Rightarrow> i) table) 0"
    by (rule fold_max_ge)
  then show False by (simp add: next_pk_def)
qed

lemma Model_save_cases:
  assumes "snd (Model_save uniques now table self) = Inr table'"
  obtains row where
    "fst (Model_save uniques now table self) = row"
    "TimeStampedModel.more row = TimeStampedModel.more self"
    "updated_at row = now"
    "\<forall>(cols, same) \<in> set uniques. \<forall>r \<in> set table. pk r \<noteq> pk row \<longrightarrow> \<not> same r row"
    "(adding table self \<and> pk row \<notin> set (map pk table) \<and> pk row \<noteq> None \<and>
        (pk self \<noteq> None \<longrightarrow> pk row = pk self) \<and> created_at row = now \<and>
        table' = table @ [row]) \<or>
     (\<not> adding table self \<and> pk row = pk self \<and> created_at row = created_at self \<and>
        table' = map (\<lambda>r. if pk r = pk row then row else r) table)"
proof -
  define stamped where "stamped = self\<lparr>created_at := (if adding table self then now else created_at self), updated_at := now\<rparr>"
  define row where "row = (if pk stamped = None then stamped\<lparr>pk := Some (next_pk table)\<rparr> else stamped)"
  define others where "others = filter (\<lambda>r. pk r \<noteq> pk row) table"
  have unfolded: "Model_save uniques now table self =
      (case find (\<lambda>(cols, same). list_ex (\<lambda>r. same r row) others) uniques of
           Some (cols, same) \<Rightarrow> (stamped, Inl (IntegrityError cols))
         | None \<Rightarrow>
             if adding table self then (row, Inr (table @ [row]))
             else (row, Inr (map (\<lambda>r. if pk r = pk row then row else r) table)))"
    by (simp only: Model_save_def Let_def stamped_def row_def others_def)
  from assms have none: "find (\<lambda>(cols, same). list_ex (\<lambda>r. same r row) others) uniques = None"
    unfolding unfolded by (auto split: option.splits)
  then have free: "\<forall>(cols, same) \<in> set uniques. \<forall>r \<in> set table. pk r \<noteq> pk row \<longrightarrow> \<not> same r row"
    by (auto simp: find_None_iff list_ex_iff others_def)
  have res: "Model_save uniques now table self =
       (if adding table self then (row, Inr (table @ [row]))
        else (row, Inr (map (\<lambda>r. if pk r = pk row then row else r) table)))"
    unfolding unfolded none by simp
  have fresh: "adding table self \<Longrightarrow> pk row \<notin> set (map pk table)"
    using next_pk_fresh[of table]
    by (cases "pk self") (auto simp: row_def stamped_def adding_def)
  have notnone: "pk row \<noteq> None" by (simp add: row_def)
  have keep: "pk self \<noteq> None \<longrightarrow> pk row = pk self" by (simp add: row_def stamped_def)
  have upd: "\<not> adding table self \<Longrightarrow> pk row = pk self"
    by (auto simp: row_def stamped_def adding_def)
  have more: "TimeStampedModel.more row = TimeStampedModel.more self"
    by (simp add: row_def stamped_def)
  have t: "updated_at row = now" "created_at row = (if adding table self then now else created_at self)"
    by (simp_all add: row_def stamped_def)
  show ?thesis
  proof (rule that[of row])
    show "fst (Model_save uniques now table self) = row" by (simp add: res)
    show "TimeStampedModel.more row = TimeStampedModel.more self" by (rule more)
    show "updated_at row = now" by (rule t)
    show "\<forall>(cols, same) \<in> set uniques. \<forall>r \<in> set table. pk r \<noteq> pk row \<longrightarrow> \<not> same r row" by (rule free)
    show "(adding table self \<and> pk row \<notin> set (map pk table) \<and> pk row \<noteq> None \<and>
        (pk self \<noteq> None \<longrightarrow> pk row = pk self) \<and> created_at row = now \<and>
        table' = table @ [row]) \<or>
     (\<not> adding table self \<and> pk row = pk self \<and> created_at row = created_at self \<and>
        table' = map (\<lambda>r. if pk r = pk row then row else r) table)"
      using assms fresh notnone keep upd t by (cases "adding table self") (simp_all add: res)
  qed
qed

lemma Model_save_store_ok:
  assumes sym: "uniques_symmetric uniques"
    and ok: "store_ok uniques table"
    and res: "snd (Model_save uniques now table self) = Inr table'"
  shows "store_ok uniques table'"
proof -
  from res obtain row where
    free: "\<forall>(cols, same) \<in> set uniques. \<forall>r \<in> set table. pk r \<noteq> pk row \<longrightarrow> \<not> same r row"
    and shape: "(adding table self \<and> pk row \<notin> set (map pk table) \<and> pk row \<noteq> None \<and>
        (pk self \<noteq> None \<longrightarrow> pk row = pk self) \<and> created_at row = now \<and>
        table' = table @ [row]) \<or>
     (\<not> adding table self \<and> pk row = pk self \<and> created_at row = created_at self \<and>
        table' = map (\<lambda>r. if pk r = pk row then row else r) table)"
    by (rule Model_save_cases)
  from ok have d: "distinct (map pk table)"
    by (simp add: store_ok_def)
  have sub: "set table' \<subseteq> insert row {r \<in> set table. pk r \<noteq> pk row}"
  proof (rule disjE[OF shape])
    assume "adding table self \<and> pk row \<notin> set (map pk table) \<and> pk row \<noteq> None \<and>
        (pk self \<noteq> None \<longrightarrow> pk row = pk self) \<and> created_at row = now \<and>
        table' = table @ [row]"
    then have "pk row \<notin> pk ` set table" and "table' = table @ [row]" by simp_all
    then show ?thesis by auto (metis imageI)
  next
    assume "\<not> adding table self \<and> pk row = pk self \<and> created_at row = created_at self \<and>
        table' = map (\<lambda>r. if pk r = pk row then row else r) table"
    then have "table' = map (\<lambda>r. if pk r = pk row then row else r) table" by simp
    then show ?thesis by auto
  qed
  have dist: "distinct (map pk table')"
  proof (rule disjE[OF shape])
    assume "adding table self \<and> pk row \<notin> set (map pk table) \<and> pk row \<noteq> None \<and>
        (pk self \<noteq> None \<longrightarrow> pk row = pk self) \<and> created_at row = now \<and>
        table' = table @ [row]"
    then have "pk row \<notin> set (map pk table)" and "table' = table @ [row]" by simp_all
    then show ?thesis using d by simp
  next
    assume "\<not> adding table self \<and> pk row = pk self \<and> created_at row = created_at self \<and>
        table' = map (\<lambda>r. if pk r = pk row then row else r) table"
    then have t: "table' = map (\<lambda>r. if pk r = pk row then row else r) table" by simp
    have "map pk table' = map pk table" unfolding t by (induction table) simp_all
    then show ?thesis using d by simp
  qed
  have "\<not> same r s"
    if u: "(cols, same) \<in> set uniques" and r: "r \<in> set table'" and s: "s \<in> set table'"
      and ne: "pk r \<noteq> pk s" for cols same r s
  proof -
    from free u have F: "\<And>x. x \<in> set table \<Longrightarrow> pk x \<noteq> pk row \<Longrightarrow> \<not> same x row" by fast
    from sym u have S: "\<And>x y. same x y \<Longrightarrow> same y x" unfolding uniques_symmetric_def by fast
    from ok u have C: "\<And>x y. x \<in> set table \<Longrightarrow> y \<in> set table \<Longrightarrow> pk x \<noteq> pk y \<Longrightarrow> \<not> same x y"
      unfolding store_ok_def by fast
    from r sub have r': "r = row \<or> (r \<in> set table \<and> pk r \<noteq> pk row)" by auto
    from s sub have s': "s = row \<or> (s \<in> set table \<and> pk s \<noteq> pk row)" by auto
    show ?thesis
    proof (cases "r = row")
      case True
      with ne s' have "s \<in> set table" "pk s \<noteq> pk row" by auto
      then have "\<not> same s row" by (rule F)
      with S True show ?thesis by blast
    next
      case False
      with r' have rt: "r \<in> set table" "pk r \<noteq> pk row" by auto
      show ?thesis
      proof (cases "s = row")
        case True
        with rt F show ?thesis by blast
      next
        case False
        with s' have "s \<in> set table" by auto
        with rt ne C show ?thesis by blast
      qed
    qed
  qed
  with dist show ?thesis unfolding store_ok_def by fast
qed

lemma saves_store_ok:
  assumes step: "\<And>now t x t'. store_ok uniques t \<Longrightarrow> snd (save now t x) = Inr t' \<Longrightarrow> store_ok uniques t'"
    and ok: "store_ok uniques table"
  shows "store_ok uniques (saves save table ops)"
  using ok
proof (induction ops arbitrary: table)
  case Nil then show ?case by simp
next
  case (Cons a ops)
  obtain now x where a: "a = (now, x)" by (cases a)
  show ?case
  proof (cases "snd (save now table x)")
    case (Inl e)
    with Cons a show ?thesis by simp
  next
    case (Inr t')
    with Cons.prems have "store_ok uniques t'" by (auto intro: step)
    with Cons.IH Inr a show ?thesis by simp
  qed
qed

lemma store_ok_Nil: "store_ok uniques []"
  by (simp add: store_ok_def)

lemma store_ok_distinct_key:
  assumes ok: "store_ok uniques table"
    and u: "(cols, same) \<in> set uniques"
    and key: "\<And>r s. key r = key s \<Longrightarrow> same r s"
  shows "distinct (map key table)"
proof -
  from ok have d: "distinct (map pk table)" by (simp add: store_ok_def)
  then have dt: "distinct table" and inj: "inj_on pk (set table)"
    by (simp_all add: distinct_map)
  have "inj_on key (set table)"
  proof (rule inj_onI)
    fix r s assume r: "r \<in> set table" and s: "s \<in> set table" and k: "key r = key s"
    show "r = s"
    proof (rule ccontr)
      assume "r \<noteq> s"
      with inj r s have "pk r \<noteq> pk s" by (auto dest: inj_onD)
      with ok u r s have "\<not> same r s" by (auto simp: store_ok_def)
      with key[OF k] show False by simp
    qed
  qed
  with dt show ?thesis by (simp add: distinct_map)
qed

lemma Model_save_more:
  "TimeStampedModel.more (fst (Model_save uniques now table self)) = TimeStampedModel.more self"
  by (simp add: Model_save_def Let_def split: option.splits prod.splits)

lemma Model_save_stored:
  assumes "snd (Model_save uniques now table self) = Inr table'"
  shows "fst (Model_save uniques now table self) \<in> set table'"
proof -
  from assms obtain row where
    fst: "fst (Model_save uniques now table self) = row"
    and shape: "(adding table self \<and> pk row \<notin> set (map pk table) \<and> pk row \<noteq> None \<and>
        (pk self \<noteq> None \<longrightarrow> pk row = pk self) \<and> created_at row = now \<and>
        table' = table @ [row]) \<or>
     (\<not> adding table self \<and> pk row = pk self \<and> created_at row = created_at self \<and>
        table' = map (\<lambda>r. if pk r = pk row then row else r) table)"
    by (rule Model_save_cases)
  from shape have "row \<in> set table'"
  proof
    assume "adding table self \<and> pk row \<notin> set (map pk table) \<and> pk row \<noteq> None \<and>
        (pk self \<noteq> None \<longrightarrow> pk row = pk self) \<and> created_at row = now \<and>
        table' = table @ [row]"
    then show ?thesis by simp
  next
    assume a: "\<not> adding table self \<and> pk row = pk self \<and> created_at row = created_at self \<and>
        table' = map (\<lambda>r. if pk r = pk row then row else r) table"
    then have "pk row \<in> pk ` set table" by (auto simp: adding_def)
    then obtain r where "r \<in> set table" "pk r = pk row" by auto
    then have "row \<in> (\<lambda>r. if pk r = pk row then row else r) ` set table" by force
    with a show ?thesis by simp
  qed
  with fst show ?thesis by simp
qed

lemma more_slug_Organization:
  "TimeStampedModel.more r = TimeStampedModel.more s \<Longrightarrow>
   Organization.slug r = Organization.slug s \<and> Organization.name r = Organization.name s"
  by (cases r, cases s) simp

lemma more_slug_ServicePlan:
  "TimeStampedModel.more r = TimeStampedModel.more s \<Longrightarrow>
   ServicePlan.slug r = ServicePlan.slug s \<and> ServicePlan.name r = ServicePlan.name s"
  by (cases r, cases s) simp

lemma more_slug_Event:
  "TimeStampedModel.more r = TimeStampedModel.more s \<Longrightarrow>
   Event.slug r = Event.slug s \<and> Event.name r = Event.name s"
  by (cases r, cases s) simp

lemma more_slug_Bundle:
  "TimeStampedModel.more r = TimeStampedModel.more s \<Longrightarrow>
   Bundle.slug r = Bundle.slug s \<and> Bundle.name r = Bundle.name s"
  by (cases r, cases s) simp

lemma Model_save_Organization:
  "Organization.slug (fst (Model_save uniques now table self)) = Organization.slug self"
  "Organization.name (fst (Model_save uniques now table self)) = Organization.name self"
  using more_slug_Organization[OF Model_save_more] by blast+

lemma Organization_save_slug:
  "Organization.slug (fst (Organization_save slugify now table self)) =
     (if Organization.slug self = [] then slugify (Organization.name self) else Organization.slug self)"
  by (simp add: Organization_save_def Let_def Model_save_Organization)

lemma Organization_save_name:
  "Organization.name (fst (Organization_save slugify now table self)) = Organization.name self"
  by (simp add: Organization_save_def Let_def Model_save_Organization)

lemma Model_save_ServicePlan:
  "ServicePlan.slug (fst (Model_save uniques now table self)) = ServicePlan.slug self"
  "ServicePlan.name (fst (Model_save uniques now table self)) = ServicePlan.name self"
  using more_slug_ServicePlan[OF Model_save_more] by blast+

lemma ServicePlan_save_slug:
  "ServicePlan.slug (fst (ServicePlan_save slugify now table self)) =
     (if ServicePlan.slug self = [] then slugify (ServicePlan.name self) else ServicePlan.slug self)"
  by (simp add: ServicePlan_save_def Let_def Model_save_ServicePlan)

lemma ServicePlan_save_name:
  "ServicePlan.name (fst (ServicePlan_save slugify now table self)) = ServicePlan.name self"
  by (simp add: ServicePlan_save_def Let_def Model_save_ServicePlan)

lemma Model_save_Event:
  "Event.slug (fst (Model_save uniques now table self)) = Event.slug self"
  "Event.name (fst (Model_save uniques now table self)) = Event.name self"
  using more_slug_Event[OF Model_save_more] by blast+

lemma Event_save_slug:
  "Event.slug (fst (Event_save slugify now table self)) =
     (if Event.slug self = [] then slugify (Event.name self) else Event.slug self)"
  by (simp add: Event_save_def Let_def Model_save_Event)

lemma Event_save_name:
  "Event.name (fst (Event_save slugify now table self)) = Event.name self"
  by (simp add: Event_save_def Let_def Model_save_Event)

lemma Model_save_Bundle:
  "Bundle.slug (fst (Model_save uniques now table self)) = Bundle.slug self"
  "Bundle.name (fst (Model_save uniques now table self)) = Bundle.name self"
  using more_slug_Bundle[OF Model_save_more] by blast+

lemma Bundle_save_slug:
  "Bundle.slug (fst (Bundle_save slugify now table self)) =
     (if Bundle.slug self = [] then slugify (Bundle.name self) else Bundle.slug self)"
  by (simp add: Bundle_save_def Let_def Model_save_Bundle)

lemma Bundle_save_name:
  "Bundle.name (fst (Bundle_save slugify now table self)) = Bundle.name self"
  by (simp add: Bundle_save_def Let_def Model_save_Bundle)

section \<open>Slug assignment on save\<close>

text \<open>
  C10. For \<^verbatim>\<open>Organization\<close>, \<^verbatim>\<open>ServicePlan\<close>, \<^verbatim>\<open>Event\<close> and \<^verbatim>\<open>Bundle\<close>: after \<^verbatim>\<open>save\<close>
  the instance's slug is \<^verbatim>\<open>slugify(name)\<close> if its slug was blank and is unchanged otherwise;
  the slug is assigned before the row is persisted, so the row a successful save stores is
  the instance with that slug; and a second save, at any later time and against any
  table, yields the slug the first save left.
\<close>

theorem save_assigns_slug:
  "(Organization.slug (fst (Organization_save slugify now t1 org)) =
      (if Organization.slug org = [] then slugify (Organization.name org) else Organization.slug org) \<and>
    (\<forall>t'. snd (Organization_save slugify now t1 org) = Inr t' \<longrightarrow>
          fst (Organization_save slugify now t1 org) \<in> set t') \<and>
    Organization.slug (fst (Organization_save slugify now' t1'
        (fst (Organization_save slugify now t1 org)))) =
      Organization.slug (fst (Organization_save slugify now t1 org))) \<and>
   (ServicePlan.slug (fst (ServicePlan_save slugify now t2 pln)) =
      (if ServicePlan.slug pln = [] then slugify (ServicePlan.name pln) else ServicePlan.slug pln) \<and>
    (\<forall>t'. snd (ServicePlan_save slugify now t2 pln) = Inr t' \<longrightarrow>
          fst (ServicePlan_save slugify now t2 pln) \<in> set t') \<and>
    ServicePlan.slug (fst (ServicePlan_save slugify now' t2'
        (fst (ServicePlan_save slugify now t2 pln)))) =
      ServicePlan.slug (fst (ServicePlan_save slugify now t2 pln))) \<and>
   (Event.slug (fst (Event_save slugify now t3 evt)) =
      (if Event.slug evt = [] then slugify (Event.name evt) else Event.slug evt) \<and>
    (\<forall>t'. snd (Event_save slugify now t3 evt) = Inr t' \<longrightarrow>
          fst (Event_save slugify now t3 evt) \<in> set t') \<and>
    Event.slug (fst (Event_save slugify now' t3'
        (fst (Event_save slugify now t3 evt)))) =
      Event.slug (fst (Event_save slugify now t3 evt))) \<and>
   (Bundle.slug (fst (Bundle_save slugify now t4 bun)) =
      (if Bundle.slug bun = [] then slugify (Bundle.name bun) else Bundle.slug bun) \<and>
    (\<forall>t'. snd (Bundle_save slugify now t4 bun) = Inr t' \<longrightarrow>
          fst (Bundle_save slugify now t4 bun) \<in> set t') \<and>
    Bundle.slug (fst (Bundle_save slugify now' t4'
        (fst (Bundle_save slugify now t4 bun)))) =
      Bundle.slug (fst (Bundle_save slugify now t4 bun)))"
proof (intro conjI allI impI)
  show "Organization.slug (fst (Organization_save slugify now t1 org)) =
      (if Organization.slug org = [] then slugify (Organization.name org) else Organization.slug org)"
    by (rule Organization_save_slug)
  show "fst (Organization_save slugify now t1 org) \<in> set t'"
    if "snd (Organization_save slugify now t1 org) = Inr t'" for t'
    using that unfolding Organization_save_def Let_def by (rule Model_save_stored)
  show "Organization.slug (fst (Organization_save slugify now' t1'
        (fst (Organization_save slugify now t1 org)))) =
      Organization.slug (fst (Organization_save slugify now t1 org))"
    by (simp add: Organization_save_slug Organization_save_name)
  show "ServicePlan.slug (fst (ServicePlan_save slugify now t2 pln)) =
      (if ServicePlan.slug pln = [] then slugify (ServicePlan.name pln) else ServicePlan.slug pln)"
    by (rule ServicePlan_save_slug)
  show "fst (ServicePlan_save slugify now t2 pln) \<in> set t'"
    if "snd (ServicePlan_save slugify now t2 pln) = Inr t'" for t'
    using that unfolding ServicePlan_save_def Let_def by (rule Model_save_stored)
  show "ServicePlan.slug (fst (ServicePlan_save slugify now' t2'
        (fst (ServicePlan_save slugify now t2 pln)))) =
      ServicePlan.slug (fst (ServicePlan_save slugify now t2 pln))"
    by (simp add: ServicePlan_save_slug ServicePlan_save_name)
  show "Event.slug (fst (Event_save slugify now t3 evt)) =
      (if Event.slug evt = [] then slugify (Event.name evt) else Event.slug evt)"
    by (rule Event_save_slug)
  show "fst (Event_save slugify now t3 evt) \<in> set t'"
    if "snd (Event_save slugify now t3 evt) = Inr t'" for t'
    using that unfolding Event_save_def Let_def by (rule Model_save_stored)
  show "Event.slug (fst (Event_save slugify now' t3'
        (fst (Event_save slugify now t3 evt)))) =
      Event.slug (fst (Event_save slugify now t3 evt))"
    by (simp add: Event_save_slug Event_save_name)
  show "Bundle.slug (fst (Bundle_save slugify now t4 bun)) =
      (if Bundle.slug bun = [] then slugify (Bundle.name bun) else Bundle.slug bun)"
    by (rule Bundle_save_slug)
  show "fst (Bundle_save slugify now t4 bun) \<in> set t'"
    if "snd (Bundle_save slugify now t4 bun) = Inr t'" for t'
    using that unfolding Bundle_save_def Let_def by (rule Model_save_stored)
  show "Bundle.slug (fst (Bundle_save slugify now' t4'
        (fst (Bundle_save slugify now t4 bun)))) =
      Bundle.slug (fst (Bundle_save slugify now t4 bun))"
    by (simp add: Bundle_save_slug Bundle_save_name)
qed


theorem save_assigns_slug_witness:
  "snd (Organization_save hyphenate 5 [] acme) =
     Inr [acme\<lparr>pk := Some 1, created_at := 5, updated_at := 5,
               Organization.slug := ''acme-ltd''\<rparr>] \<and>
   fst (Organization_save hyphenate 5 [] acme) \<in>
     set [acme\<lparr>pk := Some 1, created_at := 5, updated_at := 5,
               Organization.slug := ''acme-ltd''\<rparr>] \<and>
   Organization.slug (fst (Organization_save hyphenate 9 []
       (fst (Organization_save hyphenate 5 [] acme)))) = ''acme-ltd'' \<and>
   snd (ServicePlan_save hyphenate 5 [] gold_plan) =
     Inr [gold_plan\<lparr>pk := Some 1, created_at := 5, updated_at := 5\<rparr>] \<and>
   fst (ServicePlan_save hyphenate 5 [] gold_plan) \<in>
     set [gold_plan\<lparr>pk := Some 1, created_at := 5, updated_at := 5\<rparr>] \<and>
   ServicePlan.slug (fst (ServicePlan_save hyphenate 5 [] gold_plan)) = ''gold'' \<and>
   snd (Event_save hyphenate 5 [] launch_party) =
     Inr [launch_party\<lparr>pk := Some 1, created_at := 5, updated_at := 5,
                       Event.slug := ''launch-party''\<rparr>] \<and>
   fst (Event_save hyphenate 5 [] launch_party) \<in>
     set [launch_party\<lparr>pk := Some 1, created_at := 5, updated_at := 5,
                       Event.slug := ''launch-party''\<rparr>] \<and>
   snd (Bundle_save hyphenate 5 [] starter_bundle) =
     Inr [starter_bundle\<lparr>pk := Some 1, created_at := 5, updated_at := 5,
                         Bundle.slug := ''starter-bundle''\<rparr>] \<and>
   fst (Bundle_save hyphenate 5 [] starter_bundle) \<in>
     set [starter_bundle\<lparr>pk := Some 1, created_at := 5, updated_at := 5,
                         Bundle.slug := ''starter-bundle''\<rparr>]"
  using save_assigns_slug [of hyphenate 5 "[]" acme 9 "[]" "[]" gold_plan "[]" "[]"
      launch_party "[]" "[]" starter_bundle "[]"]
  by (simp add: Organization_save_def ServicePlan_save_def Event_save_def Bundle_save_def
      Model_save_def adding_def next_pk_def Organization_uniques_def ServicePlan_uniques_def
      Event_uniques_def Bundle_uniques_def acme_def gold_plan_def launch_party_def
      starter_bundle_def hyphenate_def Let_def)

section \<open>Uniqueness constraints\<close>

lemma Model_save_insert:
  assumes "pk self = None"
  shows "Model_save uniques now table self =
     (case find (\<lambda>(cols, same). list_ex (\<lambda>r. same r
                 (self\<lparr>created_at := now, updated_at := now, pk := Some (next_pk table)\<rparr>)) table)
             uniques of
        Some (cols, same) \<Rightarrow> (self\<lparr>created_at := now, updated_at := now\<rparr>, Inl (IntegrityError cols))
      | None \<Rightarrow>
          (self\<lparr>created_at := now, updated_at := now, pk := Some (next_pk table)\<rparr>,
           Inr (table @ [self\<lparr>created_at := now, updated_at := now, pk := Some (next_pk table)\<rparr>])))"
proof -
  have "\<forall>r \<in> set table. pk r \<noteq> Some (next_pk table)"
    using next_pk_fresh[of table] by (auto simp: image_iff)
  then have "filter (\<lambda>r. pk r \<noteq> Some (next_pk table)) table = table"
    by (simp add: filter_id_conv)
  then show ?thesis
    using assms by (simp add: Model_save_def adding_def Let_def)
qed

lemma saves_refused:
  "snd (save now table x) = Inl e \<Longrightarrow> saves save table [(now, x)] = table"
  by simp

lemma PaymentTransaction_uniques_symmetric: "uniques_symmetric PaymentTransaction_uniques"
  by (simp add: uniques_symmetric_def PaymentTransaction_uniques_def)

lemma Subscription_uniques_symmetric: "uniques_symmetric Subscription_uniques"
  by (auto simp add: uniques_symmetric_def Subscription_uniques_def) (metis option.distinct(1))

lemma Invoice_uniques_symmetric: "uniques_symmetric Invoice_uniques"
  by (auto simp add: uniques_symmetric_def Invoice_uniques_def) (metis option.distinct(1))

lemma PaymentTransaction_saves_ok:
  "store_ok PaymentTransaction_uniques (saves PaymentTransaction_save [] writes)"
proof (rule saves_store_ok)
  show "store_ok PaymentTransaction_uniques []" by (rule store_ok_Nil)
  show "store_ok PaymentTransaction_uniques t'"
    if "store_ok PaymentTransaction_uniques t" "snd (PaymentTransaction_save now t x) = Inr t'"
    for now t x t'
    using PaymentTransaction_uniques_symmetric that
    unfolding PaymentTransaction_save_def by (rule Model_save_store_ok)
qed

lemma Subscription_saves_ok:
  "store_ok Subscription_uniques (saves Subscription_save [] writes)"
proof (rule saves_store_ok)
  show "store_ok Subscription_uniques []" by (rule store_ok_Nil)
  show "store_ok Subscription_uniques t'"
    if "store_ok Subscription_uniques t" "snd (Subscription_save now t x) = Inr t'"
    for now t x t'
    using Subscription_uniques_symmetric that
    unfolding Subscription_save_def by (rule Model_save_store_ok)
qed

lemma Invoice_saves_ok:
  "store_ok Invoice_uniques (saves Invoice_save [] writes)"
proof (rule saves_store_ok)
  show "store_ok Invoice_uniques []" by (rule store_ok_Nil)
  show "store_ok Invoice_uniques t'"
    if "store_ok Invoice_uniques t" "snd (Invoice_save now t x) = Inr t'"
    for now t x t'
    using Invoice_uniques_symmetric that
    unfolding Invoice_save_def by (rule Model_save_store_ok)
qed

lemma PaymentTransaction_create_eq:
  "PaymentTransaction_create now table new =
     (if list_ex (\<lambda>r. reference r = reference new) table
      then (new\<lparr>pk := None, created_at := now, updated_at := now\<rparr>,
            Inl (IntegrityError [''reference'']))
      else (new\<lparr>pk := Some (next_pk table), created_at := now, updated_at := now\<rparr>,
            Inr (table @ [new\<lparr>pk := Some (next_pk table), created_at := now,
                               updated_at := now\<rparr>])))"
  by (simp add: PaymentTransaction_create_def PaymentTransaction_save_def Model_save_insert
        PaymentTransaction_uniques_def)

lemma Subscription_create_dup:
  assumes "list_ex (\<lambda>r. subscriber r = sub \<and> plan r = pl) table"
  shows "snd (Subscription_create now table sub pl) =
           Inl (IntegrityError [''subscriber'', ''plan''])"
  using assms
  by (simp add: Subscription_create_def Subscription_save_def adding_def Model_save_insert
        Subscription_uniques_def)

lemma Subscription_create_new:
  assumes "\<not> list_ex (\<lambda>r. subscriber r = sub \<and> plan r = pl) table"
  shows "\<exists>row. Subscription_create now table sub pl = (row, Inr (table @ [row])) \<and>
           subscriber row = sub \<and> plan row = pl \<and>
           Subscription.status row = Subscription_Status.ACTIVE \<and>
           start_date row = date_of now \<and>
           current_period_start row = None \<and> current_period_end row = None"
  using assms
  by (auto simp add: Subscription_create_def Subscription_save_def adding_def Model_save_insert
        Subscription_uniques_def list_ex_iff)

text \<open>
  C1. \<^verbatim>\<open>PaymentTransaction.reference\<close> is unique across the rows of every table that writes
  can produce; creating a transaction whose reference a stored row already has is refused
  with the violation of the constraint on \<^verbatim>\<open>reference\<close> (the specification's
  \<^verbatim>\<open>DuplicateReference\<close>) and leaves the table without a new row; a reference no row has
  is accepted and stored.
\<close>

theorem reference_unique:
  "distinct (map reference (saves PaymentTransaction_save [] writes)) \<and>
   ((\<exists>r \<in> set table. reference r = reference new) \<longrightarrow>
      snd (PaymentTransaction_create now table new) = Inl (IntegrityError [''reference'']) \<and>
      saves PaymentTransaction_create table [(now, new)] = table) \<and>
   (\<not> (\<exists>r \<in> set table. reference r = reference new) \<longrightarrow>
      (\<exists>row. PaymentTransaction_create now table new = (row, Inr (table @ [row])) \<and>
             reference row = reference new))"
proof (intro conjI impI)
  show "distinct (map reference (saves PaymentTransaction_save [] writes))"
  proof (rule store_ok_distinct_key)
    show "store_ok PaymentTransaction_uniques (saves PaymentTransaction_save [] writes)"
      by (rule PaymentTransaction_saves_ok)
    show "([''reference''], \<lambda>r s. reference r = reference s) \<in> set PaymentTransaction_uniques"
      by (simp add: PaymentTransaction_uniques_def)
  qed simp
next
  assume "\<exists>r \<in> set table. reference r = reference new"
  then have dup: "list_ex (\<lambda>r. reference r = reference new) table"
    by (simp add: list_ex_iff)
  then show "snd (PaymentTransaction_create now table new) = Inl (IntegrityError [''reference''])"
    by (simp add: PaymentTransaction_create_eq)
  then show "saves PaymentTransaction_create table [(now, new)] = table"
    by simp
next
  assume "\<not> (\<exists>r \<in> set table. reference r = reference new)"
  then have "\<not> list_ex (\<lambda>r. reference r = reference new) table"
    by (simp add: list_ex_iff)
  then show "\<exists>row. PaymentTransaction_create now table new = (row, Inr (table @ [row])) \<and>
             reference row = reference new"
    by (simp add: PaymentTransaction_create_eq)
qed

theorem reference_unique_witness:
  "distinct (map reference
     (saves PaymentTransaction_save [] [(1, first_charge), (2, first_charge)])) \<and>
   PaymentTransaction_create 1 [] first_charge =
     (first_charge\<lparr>pk := Some 1, created_at := 1, updated_at := 1\<rparr>,
      Inr [first_charge\<lparr>pk := Some 1, created_at := 1, updated_at := 1\<rparr>]) \<and>
   reference (first_charge\<lparr>pk := Some 1, created_at := 1, updated_at := 1\<rparr>) =
     reference first_charge \<and>
   snd (PaymentTransaction_create 2
          [first_charge\<lparr>pk := Some 1, created_at := 1, updated_at := 1\<rparr>] first_charge) =
     Inl (IntegrityError [''reference'']) \<and>
   saves PaymentTransaction_create
     [first_charge\<lparr>pk := Some 1, created_at := 1, updated_at := 1\<rparr>] [(2, first_charge)] =
     [first_charge\<lparr>pk := Some 1, created_at := 1, updated_at := 1\<rparr>]"
  using reference_unique [of "[(1, first_charge), (2, first_charge)]"
      "[first_charge\<lparr>pk := Some 1, created_at := 1, updated_at := 1\<rparr>]" first_charge 2]
    reference_unique [of "[]" "[]" first_charge 1]
  by (simp add: PaymentTransaction_create_def PaymentTransaction_save_def Model_save_def
      adding_def next_pk_def PaymentTransaction_uniques_def first_charge_def Let_def)

lemma more_start_date_Subscription:
  "TimeStampedModel.more r = TimeStampedModel.more s \<Longrightarrow> start_date r = start_date s"
  by (cases r, cases s) simp

lemma Subscription_save_start_date:
  "start_date (fst (Subscription_save now table s)) =
     (if adding table s then date_of now else start_date s)"
  using more_start_date_Subscription[OF Model_save_more,
      of Subscription_uniques now table "if adding table s then s\<lparr>start_date := date_of now\<rparr> else s"]
  by (simp add: Subscription_save_def)

text \<open>
  C2. No two rows of a \<^verbatim>\<open>Subscription\<close> table that writes can produce share a
  (subscriber, plan) pair; creating a subscription for a pair that a stored row has is
  refused with the violation of the constraint on \<^verbatim>\<open>(subscriber, plan)\<close> (the
  specification's \<^verbatim>\<open>DuplicateError\<close>); for a new pair the subscription is stored with
  \<^verbatim>\<open>status\<close> active and \<^verbatim>\<open>start_date\<close> the day of the call. The date comes from the
  save: whatever \<^verbatim>\<open>start_date\<close> an instance holds, an insert sets it to the day of the
  call, and a later save of a stored row leaves it.
\<close>

theorem subscription_pair_unique:
  "distinct (map (\<lambda>s. (subscriber s, plan s)) (saves Subscription_save [] writes)) \<and>
   ((\<exists>r \<in> set table. subscriber r = sub \<and> plan r = pl) \<longrightarrow>
      snd (Subscription_create now table sub pl) =
        Inl (IntegrityError [''subscriber'', ''plan''])) \<and>
   (\<not> (\<exists>r \<in> set table. subscriber r = sub \<and> plan r = pl) \<longrightarrow>
      (\<exists>row. Subscription_create now table sub pl = (row, Inr (table @ [row])) \<and>
             subscriber row = sub \<and> plan row = pl \<and>
             Subscription.status row = Subscription_Status.ACTIVE \<and>
             start_date row = date_of now)) \<and>
   (adding table s \<longrightarrow> start_date (fst (Subscription_save now table s)) = date_of now) \<and>
   (\<not> adding table s \<longrightarrow> start_date (fst (Subscription_save now table s)) = start_date s)"
proof (intro conjI impI)
  show "distinct (map (\<lambda>s. (subscriber s, plan s)) (saves Subscription_save [] writes))"
  proof (rule store_ok_distinct_key)
    show "store_ok Subscription_uniques (saves Subscription_save [] writes)"
      by (rule Subscription_saves_ok)
    show "([''subscriber'', ''plan''], \<lambda>r s. subscriber r = subscriber s \<and> plan r = plan s)
            \<in> set Subscription_uniques"
      by (simp add: Subscription_uniques_def)
  qed simp
next
  assume "\<exists>r \<in> set table. subscriber r = sub \<and> plan r = pl"
  then have "list_ex (\<lambda>r. subscriber r = sub \<and> plan r = pl) table"
    by (simp add: list_ex_iff)
  then show "snd (Subscription_create now table sub pl) =
        Inl (IntegrityError [''subscriber'', ''plan''])"
    by (rule Subscription_create_dup)
next
  assume "\<not> (\<exists>r \<in> set table. subscriber r = sub \<and> plan r = pl)"
  then have "\<not> list_ex (\<lambda>r. subscriber r = sub \<and> plan r = pl) table"
    by (simp add: list_ex_iff)
  from Subscription_create_new[OF this, of now]
  show "\<exists>row. Subscription_create now table sub pl = (row, Inr (table @ [row])) \<and>
             subscriber row = sub \<and> plan row = pl \<and>
             Subscription.status row = Subscription_Status.ACTIVE \<and>
             start_date row = date_of now"
    by blast
next
  assume "adding table s"
  then show "start_date (fst (Subscription_save now table s)) = date_of now"
    by (simp add: Subscription_save_start_date)
next
  assume "\<not> adding table s"
  then show "start_date (fst (Subscription_save now table s)) = start_date s"
    by (simp add: Subscription_save_start_date)
qed

theorem subscription_pair_unique_witness:
  "distinct (map (\<lambda>s. (subscriber s, plan s))
     (saves Subscription_save [] [(90000, subscription_42_7), (90001, subscription_42_7)])) \<and>
   Subscription_create 90000 [] 42 7 = (subscription_42_7, Inr [subscription_42_7]) \<and>
   Subscription.status subscription_42_7 = Subscription_Status.ACTIVE \<and>
   start_date subscription_42_7 = date_of 90000 \<and>
   subscriber subscription_42_7 = 42 \<and> plan subscription_42_7 = 7 \<and>
   snd (Subscription_create 99999 [subscription_42_7] 42 7) =
     Inl (IntegrityError [''subscriber'', ''plan'']) \<and>
   adding [] backwards \<and> start_date backwards = 0 \<and>
   start_date (fst (Subscription_save 200000 [] backwards)) = 2 \<and>
   \<not> adding [subscription_42_7] subscription_42_7 \<and>
   start_date (fst (Subscription_save 200000 [subscription_42_7] subscription_42_7)) = 1"
  using subscription_pair_unique [of "[(90000, subscription_42_7), (90001, subscription_42_7)]"
      "[subscription_42_7]" 42 7 99999 subscription_42_7]
    subscription_pair_unique [of "[]" "[]" 42 7 90000 backwards]
    subscription_pair_unique [of "[]" "[]" 42 7 200000 backwards]
    subscription_pair_unique [of "[]" "[subscription_42_7]" 42 7 200000 subscription_42_7]
  by (simp add: Subscription_create_def Subscription_save_def Model_save_def
      adding_def next_pk_def Subscription_uniques_def subscription_42_7_def backwards_def
      date_of_def Let_def)

lemma store_ok_at_most_one:
  assumes ok: "store_ok uniques table"
    and u: "(cols, same) \<in> set uniques"
    and agree: "\<And>r s. P r \<Longrightarrow> P s \<Longrightarrow> same r s"
  shows "length (filter P table) \<le> 1"
proof -
  from ok have d: "distinct (map pk table)" by (simp add: store_ok_def)
  then have dt: "distinct table" and inj: "inj_on pk (set table)"
    by (simp_all add: distinct_map)
  have eq: "r = s" if "r \<in> set (filter P table)" "s \<in> set (filter P table)" for r s
  proof (rule ccontr)
    assume ne: "r \<noteq> s"
    from that have r: "r \<in> set table" "P r" and s: "s \<in> set table" "P s" by simp_all
    from ne inj r s have "pk r \<noteq> pk s" by (auto dest: inj_onD)
    with ok u r s have "\<not> same r s" by (auto simp: store_ok_def)
    with agree[OF r(2) s(2)] show False by simp
  qed
  from dt have df: "distinct (filter P table)" by simp
  show ?thesis
  proof (cases "filter P table")
    case Nil then show ?thesis by simp
  next
    case (Cons x xs)
    show ?thesis
    proof (cases xs)
      case Nil with Cons show ?thesis by simp
    next
      case (Cons y ys)
      with \<open>filter P table = x # xs\<close> have "x \<in> set (filter P table)" "y \<in> set (filter P table)" "x \<noteq> y"
        using df by auto
      with eq show ?thesis by blast
    qed
  qed
qed

lemma Invoice_create_dup:
  assumes "list_ex (\<lambda>r. payment r = Some p) table" and "payment new = Some p"
  shows "snd (Invoice_create now table new) =
           Inl (IntegrityError
             (if list_ex (\<lambda>r. invoice_number r = invoice_number new) table
              then [''invoice_number''] else [''payment'']))"
  using assms
  by (auto simp add: Invoice_create_def Invoice_save_def adding_def Model_save_insert
        Invoice_uniques_def list_ex_iff)

lemma Invoice_create_null:
  assumes "payment new = None" and "\<not> list_ex (\<lambda>r. invoice_number r = invoice_number new) table"
  shows "\<exists>row. Invoice_create now table new = (row, Inr (table @ [row])) \<and> payment row = None"
  using assms
  by (auto simp add: Invoice_create_def Invoice_save_def adding_def Model_save_insert
        Invoice_uniques_def list_ex_iff)

text \<open>
  C9. At most one \<^verbatim>\<open>Invoice\<close> of a table that writes can produce points at a given
  \<^verbatim>\<open>PaymentTransaction\<close>; creating an invoice for a payment that a stored invoice already
  points at is refused (with the constraint on \<^verbatim>\<open>payment\<close>, or the one on
  \<^verbatim>\<open>invoice_number\<close> when that number is taken too) and leaves the table as it was; an
  invoice without a payment never clashes on the link.
\<close>

theorem invoice_payment_one_to_one:
  "length (filter (\<lambda>i. payment i = Some p) (saves Invoice_save [] writes)) \<le> 1 \<and>
   ((\<exists>r \<in> set table. payment r = Some p) \<and> payment new = Some p \<longrightarrow>
      snd (Invoice_create now table new) =
        Inl (IntegrityError
          (if \<exists>r \<in> set table. invoice_number r = invoice_number new
           then [''invoice_number''] else [''payment''])) \<and>
      saves Invoice_create table [(now, new)] = table) \<and>
   (payment new = None \<and> \<not> (\<exists>r \<in> set table. invoice_number r = invoice_number new) \<longrightarrow>
      (\<exists>row. Invoice_create now table new = (row, Inr (table @ [row])) \<and> payment row = None))"
proof (intro conjI impI)
  show "length (filter (\<lambda>i. payment i = Some p) (saves Invoice_save [] writes)) \<le> 1"
  proof (rule store_ok_at_most_one)
    show "store_ok Invoice_uniques (saves Invoice_save [] writes)"
      by (rule Invoice_saves_ok)
    show "([''payment''], \<lambda>r s. payment r \<noteq> None \<and> payment r = payment s) \<in> set Invoice_uniques"
      by (simp add: Invoice_uniques_def)
  qed simp
next
  assume a: "(\<exists>r \<in> set table. payment r = Some p) \<and> payment new = Some p"
  then have "list_ex (\<lambda>r. payment r = Some p) table" and "payment new = Some p"
    by (simp_all add: list_ex_iff)
  from Invoice_create_dup[OF this, of now]
  show r: "snd (Invoice_create now table new) =
        Inl (IntegrityError
          (if \<exists>r \<in> set table. invoice_number r = invoice_number new
           then [''invoice_number''] else [''payment'']))"
    by (simp add: list_ex_iff)
  then show "saves Invoice_create table [(now, new)] = table"
    by simp
next
  assume "payment new = None \<and> \<not> (\<exists>r \<in> set table. invoice_number r = invoice_number new)"
  then have "payment new = None" "\<not> list_ex (\<lambda>r. invoice_number r = invoice_number new) table"
    by (simp_all add: list_ex_iff)
  then show "\<exists>row. Invoice_create now table new = (row, Inr (table @ [row])) \<and> payment row = None"
    by (rule Invoice_create_null)
qed

theorem invoice_payment_one_to_one_witness:
  "length (filter (\<lambda>i. payment i = Some 5)
     (saves Invoice_save [] [(86400, invoice_0001),
        (86500, invoice_0001\<lparr>pk := None, invoice_number := ''INV-0002''\<rparr>)])) \<le> 1 \<and>
   payment invoice_0001 = Some 5 \<and>
   payment (invoice_0001\<lparr>invoice_number := ''INV-0002''\<rparr>) = Some 5 \<and>
   snd (Invoice_create 86500 [invoice_0001] (invoice_0001\<lparr>invoice_number := ''INV-0002''\<rparr>)) =
     Inl (IntegrityError [''payment'']) \<and>
   saves Invoice_create [invoice_0001]
     [(86500, invoice_0001\<lparr>invoice_number := ''INV-0002''\<rparr>)] = [invoice_0001] \<and>
   payment (invoice_0001\<lparr>invoice_number := ''INV-0003'', payment := None\<rparr>) = None \<and>
   Invoice_create 86500 [invoice_0001]
       (invoice_0001\<lparr>invoice_number := ''INV-0003'', payment := None\<rparr>) =
     (invoice_0001\<lparr>pk := Some 2, created_at := 86500, updated_at := 86500,
                   invoice_number := ''INV-0003'', payment := None\<rparr>,
      Inr [invoice_0001,
           invoice_0001\<lparr>pk := Some 2, created_at := 86500, updated_at := 86500,
                        invoice_number := ''INV-0003'', payment := None\<rparr>])"
  using invoice_payment_one_to_one [of 5
      "[(86400, invoice_0001), (86500, invoice_0001\<lparr>pk := None, invoice_number := ''INV-0002''\<rparr>)]"
      "[invoice_0001]" "invoice_0001\<lparr>invoice_number := ''INV-0002''\<rparr>" 86500]
    invoice_payment_one_to_one [of 5 "[]" "[invoice_0001]"
      "invoice_0001\<lparr>invoice_number := ''INV-0003'', payment := None\<rparr>" 86500]
  by (simp add: Invoice_create_def Invoice_save_def Model_save_def
      adding_def next_pk_def Invoice_uniques_def invoice_0001_def date_of_def Let_def)

section \<open>Billing period of a subscription\<close>

lemma more_period_Subscription:
  "TimeStampedModel.more r = TimeStampedModel.more s \<Longrightarrow>
   current_period_start r = current_period_start s \<and>
   current_period_end r = current_period_end s"
  by (cases r, cases s) simp

lemma Subscription_save_period:
  "current_period_start (fst (Subscription_save now table s)) = current_period_start s"
  "current_period_end (fst (Subscription_save now table s)) = current_period_end s"
  using more_period_Subscription[OF Model_save_more,
      of Subscription_uniques now table "if adding table s then s\<lparr>start_date := date_of now\<rparr> else s"]
  by (simp_all add: Subscription_save_def)

lemma Subscription_save_ordered:
  "period_ordered (fst (Subscription_save now table s)) = period_ordered s"
  by (simp add: period_ordered_def Subscription_save_period)

lemma Subscription_save_rows:
  assumes "snd (Subscription_save now table s) = Inr t'"
  shows "set t' \<subseteq> insert (fst (Subscription_save now table s)) (set table)"
proof -
  let ?s = "if adding table s then s\<lparr>start_date := date_of now\<rparr> else s"
  from assms have "snd (Model_save Subscription_uniques now table ?s) = Inr t'"
    by (simp add: Subscription_save_def)
  then obtain row where
    fst: "fst (Model_save Subscription_uniques now table ?s) = row"
    and shape: "(adding table ?s \<and> pk row \<notin> set (map pk table) \<and> pk row \<noteq> None \<and>
        (pk ?s \<noteq> None \<longrightarrow> pk row = pk ?s) \<and> created_at row = now \<and>
        t' = table @ [row]) \<or>
     (\<not> adding table ?s \<and> pk row = pk ?s \<and> created_at row = created_at ?s \<and>
        t' = map (\<lambda>r. if pk r = pk row then row else r) table)"
    by (rule Model_save_cases)
  from shape have "set t' \<subseteq> insert row (set table)"
  proof
    assume "adding table ?s \<and> pk row \<notin> set (map pk table) \<and> pk row \<noteq> None \<and>
        (pk ?s \<noteq> None \<longrightarrow> pk row = pk ?s) \<and> created_at row = now \<and>
        t' = table @ [row]"
    then have "t' = table @ [row]" by simp
    then show ?thesis by auto
  next
    assume "\<not> adding table ?s \<and> pk row = pk ?s \<and> created_at row = created_at ?s \<and>
        t' = map (\<lambda>r. if pk r = pk row then row else r) table"
    then have "t' = map (\<lambda>r. if pk r = pk row then row else r) table" by simp
    then show ?thesis by auto
  qed
  with fst show ?thesis by (simp add: Subscription_save_def)
qed

text \<open>
  C8, as stated, fails: the schema declares no constraint between
  \<^verbatim>\<open>current_period_start\<close> and \<^verbatim>\<open>current_period_end\<close>, and a subscription whose period
  starts after it ends is stored as given.
\<close>

theorem period_order_not_enforced:
  "snd (Subscription_save 100 [] backwards) =
     Inr [backwards\<lparr>pk := Some 1, created_at := 100, updated_at := 100\<rparr>] \<and>
   current_period_start (backwards\<lparr>pk := Some 1, created_at := 100, updated_at := 100\<rparr>) =
     Some 10 \<and>
   current_period_end (backwards\<lparr>pk := Some 1, created_at := 100, updated_at := 100\<rparr>) =
     Some 5 \<and>
   \<not> period_ordered (backwards\<lparr>pk := Some 1, created_at := 100, updated_at := 100\<rparr>)"
  by (simp add: Subscription_save_def Model_save_def adding_def next_pk_def
      Subscription_uniques_def backwards_def period_ordered_def date_of_def Let_def)

text \<open>
  C8, amended. Saving a subscription stores both period fields exactly as the instance
  holds them; so a table whose rows all have the period ordered still does after saving an
  instance that has it; and a subscription created with the declared defaults has both
  fields absent.
\<close>

theorem period_fields_stored_as_given:
  "current_period_start (fst (Subscription_save now table s)) = current_period_start s \<and>
   current_period_end (fst (Subscription_save now table s)) = current_period_end s \<and>
   ((\<forall>r \<in> set table. period_ordered r) \<and> period_ordered s \<longrightarrow>
      (\<forall>t'. snd (Subscription_save now table s) = Inr t' \<longrightarrow>
         fst (Subscription_save now table s) \<in> set t' \<and>
         (\<forall>r \<in> set t'. period_ordered r))) \<and>
   (\<forall>row t'. Subscription_create now table sub pl = (row, Inr t') \<longrightarrow>
      current_period_start row = None \<and> current_period_end row = None \<and>
      period_ordered row)"
proof (intro conjI impI allI)
  show "current_period_start (fst (Subscription_save now table s)) = current_period_start s"
    by (rule Subscription_save_period)
  show "current_period_end (fst (Subscription_save now table s)) = current_period_end s"
    by (rule Subscription_save_period)
next
  fix t'
  assume inv: "(\<forall>r \<in> set table. period_ordered r) \<and> period_ordered s"
    and res: "snd (Subscription_save now table s) = Inr t'"
  from res show "fst (Subscription_save now table s) \<in> set t'"
    unfolding Subscription_save_def by (rule Model_save_stored)
  from inv have "period_ordered (fst (Subscription_save now table s))"
    by (simp add: Subscription_save_ordered)
  with inv Subscription_save_rows[OF res] show "\<forall>r \<in> set t'. period_ordered r"
    by blast
next
  fix row t'
  assume c: "Subscription_create now table sub pl = (row, Inr t')"
  then have "row = fst (Subscription_create now table sub pl)" by simp
  then have p: "current_period_start row = None" "current_period_end row = None"
    by (simp_all add: Subscription_create_def Subscription_save_period)
  then show "current_period_start row = None" "current_period_end row = None"
    by simp_all
  from p show "period_ordered row" by (simp add: period_ordered_def)
qed

theorem period_fields_stored_as_given_witness:
  "period_ordered subscription_42_7 \<and>
   period_ordered (backwards\<lparr>current_period_end := Some 20\<rparr>) \<and>
   snd (Subscription_save 100 [subscription_42_7] (backwards\<lparr>current_period_end := Some 20\<rparr>)) =
     Inr [subscription_42_7,
          backwards\<lparr>pk := Some 2, created_at := 100, updated_at := 100,
                    current_period_end := Some 20\<rparr>] \<and>
   period_ordered (backwards\<lparr>pk := Some 2, created_at := 100, updated_at := 100,
                    current_period_end := Some 20\<rparr>) \<and>
   current_period_start (fst (Subscription_save 100 [subscription_42_7]
       (backwards\<lparr>current_period_end := Some 20\<rparr>))) = Some 10 \<and>
   Subscription_create 90000 [] 42 7 = (subscription_42_7, Inr [subscription_42_7]) \<and>
   current_period_start subscription_42_7 = None \<and>
   current_period_end subscription_42_7 = None"
  using period_fields_stored_as_given [of 100 "[subscription_42_7]"
      "backwards\<lparr>current_period_end := Some 20\<rparr>" 42 7]
    period_fields_stored_as_given [of 90000 "[]" subscription_42_7 42 7]
  by (simp add: Subscription_create_def Subscription_save_def Model_save_def adding_def
      next_pk_def Subscription_uniques_def backwards_def subscription_42_7_def
      period_ordered_def date_of_def Let_def)

section \<open>Operations the specification asks for\<close>

text \<open>
  C7. \<^verbatim>\<open>cancel\<close> with \<^verbatim>\<open>at_period_end\<close> true sets \<^verbatim>\<open>cancel_at_period_end\<close> and leaves
  \<^verbatim>\<open>status\<close> (and \<^verbatim>\<open>canceled_at\<close>) as they were; with \<^verbatim>\<open>at_period_end\<close> false it sets
  \<^verbatim>\<open>status\<close> to canceled and \<^verbatim>\<open>canceled_at\<close> to the time of the call.
\<close>

theorem cancel_effect:
  "cancel_at_period_end (cancel now True s) \<and>
   Subscription.status (cancel now True s) = Subscription.status s \<and>
   canceled_at (cancel now True s) = canceled_at s \<and>
   Subscription.status (cancel now False s) = Subscription_Status.CANCELED \<and>
   canceled_at (cancel now False s) = Some now \<and>
   cancel_at_period_end (cancel now False s) = cancel_at_period_end s"
  by (simp add: cancel_def)

lemma dispatch_none: "Payout.status p \<noteq> Payout_Status.PENDING \<Longrightarrow> dispatch settings now actor result p = None"
  by (simp add: dispatch_def)

lemma dispatch_pending_Failure:
  "Payout.status p = Payout_Status.PENDING \<Longrightarrow>
   dispatch settings now actor (Failure err) p =
     Some (p\<lparr>attempts := attempts p + 1, last_error := err,
             Payout.status := (if retry_attempts settings \<le> attempts p
                               then Payout_Status.FAILED else Payout_Status.PENDING)\<rparr>)"
  by (simp add: dispatch_def)

lemma dispatch_pending_Transferred:
  "Payout.status p = Payout_Status.PENDING \<Longrightarrow>
   dispatch settings now actor Transferred p =
     Some (p\<lparr>attempts := attempts p + 1, Payout.status := Payout_Status.PAID,
             Payout.processed_at := Some now, processed_by := actor\<rparr>)"
  by (simp add: dispatch_def)

lemma dispatch_Some_pending:
  "dispatch settings now actor result p = Some p' \<Longrightarrow> Payout.status p = Payout_Status.PENDING"
  by (rule ccontr) (simp add: dispatch_none)

lemma dispatches_terminal:
  "Payout.status p \<noteq> Payout_Status.PENDING \<Longrightarrow> dispatches settings p calls = p"
proof (induction calls)
  case Nil
  then show ?case by simp
next
  case (Cons c calls)
  obtain now actor result where c: "c = (now, actor, result)" by (cases c)
  from Cons.prems have "dispatch settings now actor result p = None" by (rule dispatch_none)
  with Cons c show ?case by simp
qed

lemma dispatch_Failure_SomeD:
  assumes "dispatch settings now actor (Failure err) p = Some p'"
  shows "p' = p\<lparr>attempts := attempts p + 1, last_error := err,
             Payout.status := (if retry_attempts settings \<le> attempts p
                               then Payout_Status.FAILED else Payout_Status.PENDING)\<rparr>"
proof -
  from assms have pend: "Payout.status p = Payout_Status.PENDING"
    by (rule dispatch_Some_pending)
  from assms have "Some (p\<lparr>attempts := attempts p + 1, last_error := err,
             Payout.status := (if retry_attempts settings \<le> attempts p
                               then Payout_Status.FAILED else Payout_Status.PENDING)\<rparr>) = Some p'"
    by (simp only: dispatch_pending_Failure[OF pend])
  then show ?thesis by (simp only: option.inject)
qed

lemma dispatch_Transferred_SomeD:
  assumes "dispatch settings now actor Transferred p = Some p'"
  shows "p' = p\<lparr>attempts := attempts p + 1, Payout.status := Payout_Status.PAID,
             Payout.processed_at := Some now, processed_by := actor\<rparr>"
proof -
  from assms have pend: "Payout.status p = Payout_Status.PENDING"
    by (rule dispatch_Some_pending)
  from assms have "Some (p\<lparr>attempts := attempts p + 1, Payout.status := Payout_Status.PAID,
             Payout.processed_at := Some now, processed_by := actor\<rparr>) = Some p'"
    by (simp only: dispatch_pending_Transferred[OF pend])
  then show ?thesis by (simp only: option.inject)
qed

text \<open>
  C5. A dispatch that fails when the payout's \<^verbatim>\<open>attempts\<close> has reached the platform's
  \<^verbatim>\<open>retry_attempts\<close> sets \<^verbatim>\<open>status\<close> to failed, and failed is terminal: no later call,
  whatever the gateway answers, dispatches the payout or changes it. Below the bound a
  failed dispatch leaves the payout pending. Every dispatch adds one to \<^verbatim>\<open>attempts\<close>, a
  failed one records its error in \<^verbatim>\<open>last_error\<close>, and every pending payout is dispatched.
\<close>

theorem dispatch_after_retries:
  "(\<forall>p'. dispatch settings now actor (Failure err) p = Some p' \<and>
          retry_attempts settings \<le> attempts p \<longrightarrow>
          Payout.status p' = Payout_Status.FAILED \<and> dispatches settings p' calls = p') \<and>
   (\<forall>p'. dispatch settings now actor (Failure err) p = Some p' \<and>
          attempts p < retry_attempts settings \<longrightarrow>
          Payout.status p' = Payout_Status.PENDING) \<and>
   (\<forall>p'. dispatch settings now actor result p = Some p' \<longrightarrow>
          attempts p' = attempts p + 1) \<and>
   (\<forall>p'. dispatch settings now actor (Failure err) p = Some p' \<longrightarrow> last_error p' = err) \<and>
   (Payout.status p = Payout_Status.PENDING \<longrightarrow>
      (\<exists>p'. dispatch settings now actor result p = Some p')) \<and>
   (Payout.status p = Payout_Status.FAILED \<longrightarrow>
      dispatch settings now actor result p = None \<and> dispatches settings p calls = p)"
proof (intro conjI allI impI)
  fix p'
  assume a: "dispatch settings now actor (Failure err) p = Some p' \<and>
          retry_attempts settings \<le> attempts p"
  then have "Payout.status p' = (if retry_attempts settings \<le> attempts p
                               then Payout_Status.FAILED else Payout_Status.PENDING)"
    using dispatch_Failure_SomeD[of settings now actor err p p'] by simp
  with a show f: "Payout.status p' = Payout_Status.FAILED" by simp
  then have "Payout.status p' \<noteq> Payout_Status.PENDING" by simp
  then show "dispatches settings p' calls = p'" by (rule dispatches_terminal)
next
  fix p'
  assume a: "dispatch settings now actor (Failure err) p = Some p' \<and>
          attempts p < retry_attempts settings"
  then have "Payout.status p' = (if retry_attempts settings \<le> attempts p
                               then Payout_Status.FAILED else Payout_Status.PENDING)"
    using dispatch_Failure_SomeD[of settings now actor err p p'] by simp
  with a show "Payout.status p' = Payout_Status.PENDING" by simp
next
  fix p'
  assume a: "dispatch settings now actor result p = Some p'"
  show "attempts p' = attempts p + 1"
  proof (cases result)
    case Transferred
    with a have "dispatch settings now actor Transferred p = Some p'" by simp
    from dispatch_Transferred_SomeD[OF this] show ?thesis by simp
  next
    case (Failure e)
    with a have "dispatch settings now actor (Failure e) p = Some p'" by simp
    from dispatch_Failure_SomeD[OF this] show ?thesis by simp
  qed
next
  fix p'
  assume a: "dispatch settings now actor (Failure err) p = Some p'"
  from dispatch_Failure_SomeD[OF this] show "last_error p' = err" by simp
next
  assume pend: "Payout.status p = Payout_Status.PENDING"
  show "\<exists>p'. dispatch settings now actor result p = Some p'"
    by (cases result)
      (simp_all add: dispatch_pending_Transferred[OF pend] dispatch_pending_Failure[OF pend])
next
  assume f: "Payout.status p = Payout_Status.FAILED"
  then have n: "Payout.status p \<noteq> Payout_Status.PENDING" by simp
  then show "dispatch settings now actor result p = None" by (rule dispatch_none)
  from n show "dispatches settings p calls = p" by (rule dispatches_terminal)
qed

theorem dispatch_after_retries_witness:
  "Payout.status payout_tried_thrice = Payout_Status.PENDING \<and>
   retry_attempts platform_defaults \<le> attempts payout_tried_thrice \<and>
   dispatch platform_defaults 200 None (Failure ''bank offline'') payout_tried_thrice =
     Some (payout_tried_thrice\<lparr>attempts := 4, last_error := ''bank offline'',
             Payout.status := Payout_Status.FAILED\<rparr>) \<and>
   Payout.status (payout_tried_thrice\<lparr>attempts := 4, last_error := ''bank offline'',
             Payout.status := Payout_Status.FAILED\<rparr>) = Payout_Status.FAILED \<and>
   dispatches platform_defaults
     (payout_tried_thrice\<lparr>attempts := 4, last_error := ''bank offline'',
        Payout.status := Payout_Status.FAILED\<rparr>)
     [(300, None, Transferred), (400, Some 1, Failure ''again'')] =
     payout_tried_thrice\<lparr>attempts := 4, last_error := ''bank offline'',
        Payout.status := Payout_Status.FAILED\<rparr> \<and>
   dispatch platform_defaults 300 None Transferred
     (payout_tried_thrice\<lparr>attempts := 4, last_error := ''bank offline'',
        Payout.status := Payout_Status.FAILED\<rparr>) = None \<and>
   attempts (payout_tried_thrice\<lparr>attempts := 1\<rparr>) < retry_attempts platform_defaults \<and>
   dispatch platform_defaults 200 None (Failure ''bank offline'')
     (payout_tried_thrice\<lparr>attempts := 1\<rparr>) =
     Some (payout_tried_thrice\<lparr>attempts := 2, last_error := ''bank offline''\<rparr>) \<and>
   Payout.status (payout_tried_thrice\<lparr>attempts := 2, last_error := ''bank offline''\<rparr>) =
     Payout_Status.PENDING"
proof -
  let ?failed = "payout_tried_thrice\<lparr>attempts := 4, last_error := ''bank offline'',
             Payout.status := Payout_Status.FAILED\<rparr>"
  let ?calls = "[(300, None, Transferred), (400, Some 1, Failure ''again'')]"
  have pend: "Payout.status payout_tried_thrice = Payout_Status.PENDING"
    by (simp add: payout_tried_thrice_def)
  have reached: "retry_attempts platform_defaults \<le> attempts payout_tried_thrice"
    by (simp add: payout_tried_thrice_def platform_defaults_def)
  have d1: "dispatch platform_defaults 200 None (Failure ''bank offline'') payout_tried_thrice =
     Some ?failed"
    by (simp add: dispatch_def payout_tried_thrice_def platform_defaults_def)
  have below: "attempts (payout_tried_thrice\<lparr>attempts := 1\<rparr>) < retry_attempts platform_defaults"
    by (simp add: platform_defaults_def)
  have d2: "dispatch platform_defaults 200 None (Failure ''bank offline'')
     (payout_tried_thrice\<lparr>attempts := 1\<rparr>) =
     Some (payout_tried_thrice\<lparr>attempts := 2, last_error := ''bank offline''\<rparr>)"
    by (simp add: dispatch_def payout_tried_thrice_def platform_defaults_def)
  note t1 = dispatch_after_retries [of platform_defaults 200 None "''bank offline''"
      payout_tried_thrice ?calls "Failure ''bank offline''"]
  from t1 d1 reached have f: "Payout.status ?failed = Payout_Status.FAILED"
    and stays: "dispatches platform_defaults ?failed ?calls = ?failed"
    by blast+
  note t2 = dispatch_after_retries [of platform_defaults 300 None "''bank offline''"
      ?failed ?calls Transferred]
  from t2 f have none: "dispatch platform_defaults 300 None Transferred ?failed = None"
    by blast
  note t3 = dispatch_after_retries [of platform_defaults 200 None "''bank offline''"
      "payout_tried_thrice\<lparr>attempts := 1\<rparr>" "[]" "Failure ''bank offline''"]
  from t3 d2 below have p: "Payout.status
      (payout_tried_thrice\<lparr>attempts := 2, last_error := ''bank offline''\<rparr>) =
     Payout_Status.PENDING"
    by blast
  from pend reached d1 f stays none below d2 p show ?thesis by blast
qed



lemma Model_save_update:
  assumes "\<not> adding table self"
  shows "Model_save [] now table self =
           (self\<lparr>updated_at := now\<rparr>,
            Inr (map (\<lambda>r. if pk r = pk self then self\<lparr>updated_at := now\<rparr> else r) table))"
proof -
  from assms obtain k where "pk self = Some k" by (auto simp: adding_def)
  with assms show ?thesis by (simp add: Model_save_def Let_def)
qed

lemma PaystackWebhook_save_stored_row:
  assumes "w \<in> set table" and "pk w \<noteq> None" and "payload w \<noteq> JNull"
  shows "PaystackWebhook_save now table w =
           (w\<lparr>updated_at := now\<rparr>,
            Inr (map (\<lambda>r. if pk r = pk w then w\<lparr>updated_at := now\<rparr> else r) table))"
proof -
  from assms have "\<not> adding table w" by (auto simp: adding_def)
  with assms show ?thesis
    by (simp add: PaystackWebhook_save_def Model_save_update)
qed





end
